theory Spec2Isabelle
  imports Complex_Main "HOL-Library.Word"
begin

section \<open>JavaScript strings\<close>

text \<open>
  A JavaScript string is a sequence of UTF-16 code units.  The pass and fail markers of the
  reporter are single code units outside ASCII, the bar chart of the header line is a
  surrogate pair, so the strings of the model are lists of 16-bit words and every string
  operation of the source works on code units, as it does in the engine.
\<close>

type_synonym jstring = "16 word list"

definition js :: "string \<Rightarrow> jstring" where
  "js s = map (\<lambda>c. of_nat (of_char c)) s"

definition check_mark :: jstring where
  "check_mark = [0x2705]"

definition cross_mark :: jstring where
  "cross_mark = [0x274C]"

definition bar_chart :: jstring where
  "bar_chart = [0xD83D, 0xDCCA]"

definition stopwatch :: jstring where
  "stopwatch = [0x23F1, 0xFE0F]"

definition police_light :: jstring where
  "police_light = [0xD83D, 0xDEA8]"

text \<open>\<^verbatim>\<open>String.prototype.startsWith\<close>.\<close>

fun startsWith :: "jstring \<Rightarrow> jstring \<Rightarrow> bool" where
  "startsWith s [] = True"
| "startsWith [] (p # ps) = False"
| "startsWith (c # cs) (p # ps) = (c = p \<and> startsWith cs ps)"

text \<open>\<^verbatim>\<open>String.prototype.includes\<close>: the pattern occurs at some position.\<close>

fun includes_str :: "jstring \<Rightarrow> jstring \<Rightarrow> bool" where
  "includes_str [] p = startsWith [] p"
| "includes_str (c # cs) p = (startsWith (c # cs) p \<or> includes_str cs p)"

text \<open>
  \<^verbatim>\<open>String.prototype.replace\<close> with a string pattern: only the first occurrence is
  replaced.  The replacement strings of the source are empty, so the dollar patterns of
  the replacement play no part.
\<close>

fun replace :: "jstring \<Rightarrow> jstring \<Rightarrow> jstring \<Rightarrow> jstring" where
  "replace [] p r = (if p = [] then r else [])"
| "replace (c # cs) p r =
     (if startsWith (c # cs) p then r @ drop (length p) (c # cs)
      else c # replace cs p r)"

text \<open>The white space and line terminators that \<^verbatim>\<open>String.prototype.trim\<close> removes.\<close>

definition isWhiteSpace :: "16 word \<Rightarrow> bool" where
  "isWhiteSpace c \<longleftrightarrow>
     c \<in> {0x0009, 0x000A, 0x000B, 0x000C, 0x000D, 0x0020, 0x00A0, 0x1680,
          0x2000, 0x2001, 0x2002, 0x2003, 0x2004, 0x2005, 0x2006, 0x2007,
          0x2008, 0x2009, 0x200A, 0x2028, 0x2029, 0x202F, 0x205F, 0x3000, 0xFEFF}"

definition trim :: "jstring \<Rightarrow> jstring" where
  "trim s = rev (dropWhile isWhiteSpace (rev (dropWhile isWhiteSpace s)))"

definition isDigit :: "16 word \<Rightarrow> bool" where
  "isDigit c \<longleftrightarrow> 0x30 \<le> c \<and> c \<le> 0x39"

text \<open>
  \<^verbatim>\<open>text.match(/LITERAL(\d+)/)\<close>: the leftmost position where the literal is followed
  by at least one digit; the captured group is the longest run of digits there.  The
  result is the capture, \<open>None\<close> when the pattern matches nowhere.
\<close>

definition match_here :: "jstring \<Rightarrow> jstring \<Rightarrow> jstring option" where
  "match_here lit s =
     (if startsWith s lit \<and> takeWhile isDigit (drop (length lit) s) \<noteq> []
      then Some (takeWhile isDigit (drop (length lit) s)) else None)"

fun match_digits :: "jstring \<Rightarrow> jstring \<Rightarrow> jstring option" where
  "match_digits lit [] = match_here lit []"
| "match_digits lit (c # cs) =
     (case match_here lit (c # cs) of
        Some d \<Rightarrow> Some d
      | None \<Rightarrow> match_digits lit cs)"

text \<open>
  \<^verbatim>\<open>parseInt\<close> on a non-empty string of decimal digits: its value.  The engine
  returns a double, which is this number exactly below \<open>2 ^ 53\<close>.
\<close>

definition parseInt :: "jstring \<Rightarrow> nat" where
  "parseInt ds = foldl (\<lambda>n c. 10 * n + (unat c - 48)) 0 ds"

text \<open>The decimal text of a count, as string concatenation and templates produce it.\<close>

fun toString :: "nat \<Rightarrow> jstring" where
  "toString n =
     (if n < 10 then [of_nat (48 + n)]
      else toString (n div 10) @ [of_nat (48 + n mod 10)])"

declare toString.simps [simp del]

section \<open>The supervisor's extraction of results (index.test.js)\<close>

datatype console_type = Log | Info | Error | Debug | Dir | StartGroup | EndGroup

record console_message =
  msg_type :: console_type
  msg_text :: jstring

datatype status = Passed | Failed

record extracted =
  ex_name :: jstring
  ex_status :: status
  ex_error :: "jstring option"

text \<open>
  The state of the scanning loop of \<^verbatim>\<open>extractTestResults\<close>: the records pushed so far
  and the two counters.  The loop's own \<^verbatim>\<open>console.log\<close> calls write to the supervisor's
  terminal and do not reach the result; they are left out.
\<close>

record scan =
  results :: "extracted list"
  totalTests :: nat
  passedTests :: nat

definition scan_header :: "jstring \<Rightarrow> scan \<Rightarrow> scan" where
  "scan_header text s =
     (if includes_str text (bar_chart @ js '' Tests:'') then
        (case match_digits (bar_chart @ js '' Tests: '') text of
           Some d \<Rightarrow> s\<lparr>totalTests := parseInt d\<rparr>
         | None \<Rightarrow> s)
      else s)"

definition scan_result :: "jstring \<Rightarrow> scan \<Rightarrow> scan" where
  "scan_result text s =
     (if startsWith text (check_mark @ js '' '') then
        s\<lparr>results := results s @
              [\<lparr>ex_name = trim (replace text (check_mark @ js '' '') []),
                ex_status = Passed, ex_error = None\<rparr>],
          passedTests := passedTests s + 1\<rparr>
      else if startsWith text (cross_mark @ js '' '') then
        s\<lparr>results := results s @
              [\<lparr>ex_name = trim (replace text (cross_mark @ js '' '') []),
                ex_status = Failed, ex_error = Some (js ''Test assertion failed'')\<rparr>]\<rparr>
      else s)"

definition scan_message :: "scan \<Rightarrow> console_message \<Rightarrow> scan" where
  "scan_message s msg = scan_result (msg_text msg) (scan_header (msg_text msg) s)"

text \<open>The generic entries \<^verbatim>\<open>Browser Test i\<close> for \<open>i\<close> from \<open>1\<close> to \<open>totalTests\<close>.\<close>

definition generic_entries :: "nat \<Rightarrow> nat \<Rightarrow> extracted list" where
  "generic_entries n p =
     map (\<lambda>i. \<lparr>ex_name = js ''Browser Test '' @ toString i,
               ex_status = (if i \<le> p then Passed else Failed),
               ex_error = None\<rparr>) [1 ..< Suc n]"

definition extractTestResults :: "console_message list \<Rightarrow> extracted list" where
  "extractTestResults consoleMessages =
     (let s = foldl scan_message \<lparr>results = [], totalTests = 0, passedTests = 0\<rparr>
                consoleMessages
      in if results s = [] \<and> totalTests s > 0
         then generic_entries (totalTests s) (passedTests s)
         else results s)"

section \<open>JavaScript values\<close>

text \<open>
  The values that the assertions compare.  An object is a reference into a heap, so that
  two objects with the same contents are still two values and a structure can contain
  itself.  \<open>Number\<close> carries a finite number by its value, which makes \<open>+0\<close> and \<open>-0\<close> one
  value, as \<^verbatim>\<open>===\<close> does; \<open>NaN\<close> and the two infinities are values of their own.
  Functions and symbols are compared by identity, the other primitives by value.
\<close>

datatype jsval =
    Undefined
  | Null
  | Boolean bool
  | Number real
  | NaN
  | PosInfinity
  | NegInfinity
  | BigInt int
  | String jstring
  | Symbol nat
  | Function nat
  | Object nat

text \<open>
  What the diff can observe of an object: the own enumerable string keys with their
  values, in the order of \<^verbatim>\<open>Object.keys\<close>, and the other properties that a lookup
  \<^verbatim>\<open>a[key]\<close> finds although \<^verbatim>\<open>Object.keys\<close> does not list them (own properties that are
  not enumerable, such as the length of an array, and inherited ones).  Properties are data
  properties: accessors and proxies are outside the model.
\<close>

record jsobject =
  enumerable :: "(jstring \<times> jsval) list"
  hidden :: "(jstring \<times> jsval) list"

type_synonym heap = "nat \<Rightarrow> jsobject"

text \<open>\<^verbatim>\<open>a === b\<close>.\<close>

definition strict_eq :: "jsval \<Rightarrow> jsval \<Rightarrow> bool" where
  "strict_eq a b \<longleftrightarrow> a = b \<and> a \<noteq> NaN"

text \<open>\<^verbatim>\<open>value != null && typeof value === "object"\<close>.\<close>

fun isObject :: "jsval \<Rightarrow> bool" where
  "isObject (Object r) = True"
| "isObject v = False"

text \<open>\<^verbatim>\<open>Object.keys(a)\<close> and \<^verbatim>\<open>a[key]\<close>; the diff calls both on objects only.\<close>

fun Object_keys :: "heap \<Rightarrow> jsval \<Rightarrow> jstring list" where
  "Object_keys h (Object r) = map fst (enumerable (h r))"
| "Object_keys h v = []"

fun get :: "heap \<Rightarrow> jsval \<Rightarrow> jstring \<Rightarrow> jsval" where
  "get h (Object r) key =
     (case map_of (enumerable (h r)) key of
        Some v \<Rightarrow> v
      | None \<Rightarrow> (case map_of (hidden (h r)) key of Some v \<Rightarrow> v | None \<Rightarrow> Undefined))"
| "get h v key = Undefined"

text \<open>\<^verbatim>\<open>new Set(list)\<close>, iterated: the first occurrence of each element, in order.\<close>

fun new_Set :: "'a list \<Rightarrow> 'a list" where
  "new_Set [] = []"
| "new_Set (x # xs) = x # new_Set (removeAll x xs)"

section \<open>Structural diff and \<open>assert.deepEqual\<close> (index.js)\<close>

record difference =
  path :: "jstring list"
  actual :: jsval
  expected :: jsval

text \<open>
  Draining the generators of the recursive calls one after the other: the result is the
  concatenation, and there is none as soon as one of them does not finish.
\<close>

fun drain :: "'a list option list \<Rightarrow> 'a list option" where
  "drain [] = Some []"
| "drain (None # rest) = None"
| "drain (Some ds # rest) = map_option ((@) ds) (drain rest)"

text \<open>
  The generator \<^verbatim>\<open>diff\<close>, drained.  The source recurses without a guard against cycles,
  so on a structure that contains itself the recursion need not end: the first argument
  bounds the depth of the recursion, and \<open>None\<close> says that this depth was not enough.
\<close>

fun diff :: "nat \<Rightarrow> heap \<Rightarrow> jsval \<Rightarrow> jsval \<Rightarrow> jstring list \<Rightarrow> difference list option" where
  "diff 0 h a b p = None"
| "diff (Suc n) h a b p =
     (if strict_eq a b then Some []
      else if \<not> isObject a \<or> \<not> isObject b then
        Some [\<lparr>path = p, actual = a, expected = b\<rparr>]
      else
        drain (map (\<lambda>key. diff n h (get h a key) (get h b key) (p @ [key]))
                 (new_Set (Object_keys h a @ Object_keys h b))))"

text \<open>
  \<^verbatim>\<open>AssertionError\<close>: the message and the details that \<^verbatim>\<open>Object.assign\<close> copied onto
  the error; a detail that was not given is \<open>None\<close>.
\<close>

record assertion_error =
  message :: jstring
  err_actual :: "jsval option"
  err_expected :: "jsval option"
  differences :: "difference list option"

text \<open>
  \<^verbatim>\<open>assert.deepEqual\<close>: \<open>Inl\<close> is the error thrown, \<open>Inr ()\<close> the normal return, \<open>None\<close>
  a diff that does not finish within the depth given.
\<close>

definition deepEqual :: "nat \<Rightarrow> heap \<Rightarrow> jsval \<Rightarrow> jsval \<Rightarrow> (assertion_error + unit) option" where
  "deepEqual n h act expd =
     (case diff n h act expd [] of
        None \<Rightarrow> None
      | Some ds \<Rightarrow>
          if length ds > 0 then
            Some (Inl \<lparr>message = js ''Values are not deeply equal'',
                       err_actual = Some act, err_expected = Some expd,
                       differences = Some ds\<rparr>)
          else Some (Inr ()))"

text \<open>The operands of the scenario: \<^verbatim>\<open>{a:1,b:{c:2}}\<close> at 0 and \<^verbatim>\<open>{a:1,b:{c:3}}\<close> at 2.\<close>

definition scenario_heap :: heap where
  "scenario_heap r =
     (if r = 0 then \<lparr>enumerable = [(js ''a'', Number 1), (js ''b'', Object 1)], hidden = []\<rparr>
      else if r = 1 then \<lparr>enumerable = [(js ''c'', Number 2)], hidden = []\<rparr>
      else if r = 2 then \<lparr>enumerable = [(js ''a'', Number 1), (js ''b'', Object 3)], hidden = []\<rparr>
      else if r = 3 then \<lparr>enumerable = [(js ''c'', Number 3)], hidden = []\<rparr>
      else \<lparr>enumerable = [], hidden = []\<rparr>)"

text \<open>A structure that contains itself: \<^verbatim>\<open>x = {}; x.self = x\<close>, twice.\<close>

definition cyclic_heap :: heap where
  "cyclic_heap r = \<lparr>enumerable = [(js ''self'', Object r)], hidden = []\<rparr>"



section \<open>The test runner (index.js)\<close>

text \<open>
  What a test action can reject with, as far as \<^verbatim>\<open>logSummary\<close> tells values apart: an
  instance of \<^verbatim>\<open>AssertionError\<close>; \<^verbatim>\<open>null\<close> or \<^verbatim>\<open>undefined\<close>, on which reading
  \<^verbatim>\<open>.message\<close> throws; any other value, given by the text that its \<^verbatim>\<open>message\<close> property
  has inside a template.
\<close>

datatype thrown = AssertionError assertion_error | Nullish | OtherError jstring

datatype outcome = Fulfilled | Rejected thrown

datatype js_error = TypeError | NotFoundError

record run_result =
  result_name :: jstring
  result_passed :: bool
  result_error :: "thrown option"

text \<open>
  One call of a console method: the method, under the name the supervisor's driver gives
  to the message type, and the arguments.
\<close>

datatype console_arg = Text jstring | Value jsval | DifferenceList "difference list" | StackTrace

record console_call =
  call_type :: console_type
  call_args :: "console_arg list"

datatype timer = AutoRunTimer | LoadTimer

record 'a test_case =
  name :: jstring
  fn :: 'a

text \<open>
  The fields of \<^verbatim>\<open>TestRunner\<close>, followed by the parts of the page that its methods read
  and write: the clock of \<^verbatim>\<open>performance.now\<close>, the console, the alerts shown, the flag
  \<^verbatim>\<open>window.__testCompleted\<close> and the pending timeouts with their delays.  The type \<open>'a\<close> is
  the type of test actions; what calling and awaiting one does is given to the run by a
  function \<open>exec\<close>.
\<close>

record 'a runner =
  passed :: nat
  failed :: nat
  total :: nat
  startTime :: real
  testResults :: "run_result list"
  testQueue :: "'a test_case list"
  autoRunScheduled :: bool
  domContentLoaded :: bool
  clock :: real
  console :: "console_call list"
  alerts :: "jstring list"
  testCompleted :: bool
  timers :: "(nat \<times> timer) list"

definition new_TestRunner :: "'a runner" where
  "new_TestRunner =
     \<lparr>passed = 0, failed = 0, total = 0, startTime = 0, testResults = [], testQueue = [],
      autoRunScheduled = False, domContentLoaded = False,
      clock = 0, console = [], alerts = [], testCompleted = False, timers = []\<rparr>"

definition newline :: jstring where
  "newline = [0x000A]"

definition console_out :: "console_type \<Rightarrow> console_arg list \<Rightarrow> 'a runner \<Rightarrow> 'a runner" where
  "console_out t args r = r\<lparr>console := console r @ [\<lparr>call_type = t, call_args = args\<rparr>]\<rparr>"

definition setTimeout :: "timer \<Rightarrow> nat \<Rightarrow> 'a runner \<Rightarrow> 'a runner" where
  "setTimeout callback delay r = r\<lparr>timers := timers r @ [(delay, callback)]\<rparr>"

definition scheduleAutoRun :: "'a runner \<Rightarrow> 'a runner" where
  "scheduleAutoRun r =
     (if autoRunScheduled r then r
      else setTimeout AutoRunTimer 50 (r\<lparr>autoRunScheduled := True\<rparr>))"

definition enqueueTest :: "jstring \<Rightarrow> 'a \<Rightarrow> 'a runner \<Rightarrow> 'a runner" where
  "enqueueTest nm f r =
     (let r1 = r\<lparr>testQueue := testQueue r @ [\<lparr>name = nm, fn = f\<rparr>]\<rparr>
      in if domContentLoaded r1 then scheduleAutoRun r1 else r1)"

text \<open>The listeners that the constructor installs.\<close>

definition on_DOMContentLoaded :: "'a runner \<Rightarrow> 'a runner" where
  "on_DOMContentLoaded r = scheduleAutoRun (r\<lparr>domContentLoaded := True\<rparr>)"

definition on_load :: "'a runner \<Rightarrow> 'a runner" where
  "on_load r = setTimeout LoadTimer 100 r"

definition start :: "'a runner \<Rightarrow> 'a runner" where
  "start r =
     console_out Log [Text (js ''Running tests...'')]
       (r\<lparr>passed := 0, failed := 0, total := 0, testResults := [], startTime := clock r\<rparr>)"

text \<open>\<^verbatim>\<open>AssertionError.prototype.log\<close>.\<close>

definition AssertionError_log :: "assertion_error \<Rightarrow> 'a runner \<Rightarrow> 'a runner" where
  "AssertionError_log e r =
     (let r1 = console_out StartGroup [Text (police_light @ js '' AssertionError'')] r;
          r2 = console_out Error [Text (js ''Message: ''), Text (message e)] r1;
          r3 = (case (err_actual e, err_expected e) of
                  (Some a, Some x) \<Rightarrow>
                    console_out Dir [Value x]
                      (console_out Log [Text (js ''Expected:'')]
                        (console_out Dir [Value a]
                          (console_out Log [Text (js ''Actual:'')] r2)))
                | _ \<Rightarrow> r2);
          r4 = (case differences e of
                  Some ds \<Rightarrow>
                    console_out Dir [DifferenceList ds]
                      (console_out Log [Text (js ''Differences:'')] r3)
                | None \<Rightarrow> r3);
          r5 = console_out Debug [Text (js ''Stack: ''), StackTrace] r4
      in console_out EndGroup [] r5)"

text \<open>
  The loop of \<^verbatim>\<open>logSummary\<close> over the results.  Reading \<^verbatim>\<open>result.error.message\<close> of a
  failed result whose error is \<^verbatim>\<open>null\<close> or \<^verbatim>\<open>undefined\<close> throws a \<^verbatim>\<open>TypeError\<close>, which
  ends the loop and the summary: the first component is the error thrown, if any.
\<close>

fun log_results :: "run_result list \<Rightarrow> 'a runner \<Rightarrow> js_error option \<times> 'a runner" where
  "log_results [] r = (None, r)"
| "log_results (result # rest) r =
     (if result_passed result then
        log_results rest (console_out Info [Text (check_mark @ js '' '' @ result_name result)] r)
      else
        (let r1 = console_out Error [Text (cross_mark @ js '' '' @ result_name result)] r
         in case result_error result of
              Some (AssertionError e) \<Rightarrow> log_results rest (AssertionError_log e r1)
            | Some (OtherError m) \<Rightarrow>
                log_results rest (console_out Error [Text (js ''  '' @ m)] r1)
            | Some Nullish \<Rightarrow> (Some TypeError, r1)
            | None \<Rightarrow> (Some TypeError, r1)))"

text \<open>
  \<^verbatim>\<open>logSummary\<close>.  The first argument stands for \<^verbatim>\<open>toFixed(3)\<close>, the engine's formatting
  of the duration.  The result is the error thrown or the boolean returned.
\<close>

definition logSummary :: "(real \<Rightarrow> jstring) \<Rightarrow> 'a runner \<Rightarrow> (js_error + bool) \<times> 'a runner" where
  "logSummary toFixed3 r =
     (let now = clock r;
          duration = toFixed3 ((now - startTime r) / 1000);
          r1 = console_out Info [Text (newline @ bar_chart @ js '' Tests: '' @ toString (total r))] r
      in case log_results (testResults r1) r1 of
           (Some e, r2) \<Rightarrow> (Inl e, r2)
         | (None, r2) \<Rightarrow>
             (let r3 = console_out Log [Text newline] r2;
                  r4 = console_out Log [Text (check_mark @ js '' Passed: '' @ toString (passed r3))] r3;
                  r5 = (if failed r4 > 0
                        then console_out Log
                               [Text (cross_mark @ js '' Failed: '' @ toString (failed r4))] r4
                        else r4);
                  r6 = console_out Log [Text (stopwatch @ js '' Duration: '' @ duration @ js ''s'')] r5
              in if failed r6 > 0 then
                   (let r7 = console_out Log [Text (newline @ cross_mark @ js '' Tests failed'')] r6;
                        summary = cross_mark @ js '' '' @ toString (failed r7) @ js '' of ''
                                  @ toString (total r7)
                                  @ js '' tests failed. See console for details.'';
                        r8 = r7\<lparr>alerts := alerts r7 @ [summary]\<rparr>
                    in (Inr False, r8\<lparr>testCompleted := True\<rparr>))
                 else
                   (let r7 = console_out Log [Text (newline @ check_mark @ js '' All tests passed'')] r6
                    in (Inr True, r7\<lparr>testCompleted := True\<rparr>))))"

text \<open>
  The body of the loop of \<^verbatim>\<open>runPendingTests\<close> after the action has settled: the
  \<^verbatim>\<open>try\<close> branch when the action fulfilled, the \<^verbatim>\<open>catch\<close> branch when it rejected.
\<close>

fun record_outcome :: "'a test_case \<Rightarrow> outcome \<Rightarrow> 'a runner \<Rightarrow> 'a runner" where
  "record_outcome testCase Fulfilled r =
     r\<lparr>passed := passed r + 1,
       testResults := testResults r @
         [\<lparr>result_name = name testCase, result_passed = True, result_error = None\<rparr>]\<rparr>"
| "record_outcome testCase (Rejected err) r =
     r\<lparr>failed := failed r + 1,
       testResults := testResults r @
         [\<lparr>result_name = name testCase, result_passed = False, result_error = Some err\<rparr>]\<rparr>"

text \<open>
  The loop over \<^verbatim>\<open>testsToRun\<close>.  \<open>exec f r\<close> is calling and awaiting the action \<open>f\<close> in
  state \<open>r\<close>: \<open>None\<close> when the action never settles, otherwise how it settled and the
  state in which the loop resumes.  That state is the action's to choose: whatever runs
  while the action is suspended (a registration, a timer that fires, another run) has
  changed the runner by then.
\<close>

fun run_tests ::
  "('a \<Rightarrow> 'a runner \<Rightarrow> (outcome \<times> 'a runner) option) \<Rightarrow> 'a test_case list \<Rightarrow> 'a runner
   \<Rightarrow> 'a runner option" where
  "run_tests exec [] r = Some r"
| "run_tests exec (testCase # rest) r =
     (case exec (fn testCase) r of
        None \<Rightarrow> None
      | Some (oc, r1) \<Rightarrow> run_tests exec rest (record_outcome testCase oc r1))"

datatype run_value = ReturnsUndefined | ReturnsBool bool

text \<open>
  \<^verbatim>\<open>runPendingTests\<close>: \<open>None\<close> when the promise never settles, otherwise the error it
  rejects with or the value it resolves to, and the state left behind.
\<close>

definition runPendingTests ::
  "('a \<Rightarrow> 'a runner \<Rightarrow> (outcome \<times> 'a runner) option) \<Rightarrow> (real \<Rightarrow> jstring) \<Rightarrow> 'a runner
   \<Rightarrow> ((js_error + run_value) \<times> 'a runner) option" where
  "runPendingTests exec toFixed3 r =
     (if length (testQueue r) = 0 then Some (Inr ReturnsUndefined, r)
      else
        (let r1 = start r;
             r2 = r1\<lparr>total := length (testQueue r1)\<rparr>;
             testsToRun = testQueue r2;
             r3 = r2\<lparr>testQueue := []\<rparr>
         in case run_tests exec testsToRun r3 of
              None \<Rightarrow> None
            | Some r4 \<Rightarrow>
                (case logSummary toFixed3 r4 of
                   (Inl e, r5) \<Rightarrow> Some (Inl e, r5)
                 | (Inr b, r5) \<Rightarrow> Some (Inr (ReturnsBool b), r5))))"

text \<open>A timeout fires: the callback that the constructor or \<^verbatim>\<open>scheduleAutoRun\<close> gave.\<close>

fun fire ::
  "('a \<Rightarrow> 'a runner \<Rightarrow> (outcome \<times> 'a runner) option) \<Rightarrow> (real \<Rightarrow> jstring) \<Rightarrow> nat \<times> timer
   \<Rightarrow> 'a runner \<Rightarrow> ((js_error + run_value) \<times> 'a runner) option" where
  "fire exec toFixed3 (delay, AutoRunTimer) r =
     runPendingTests exec toFixed3
       (r\<lparr>timers := remove1 (delay, AutoRunTimer) (timers r), autoRunScheduled := False\<rparr>)"
| "fire exec toFixed3 (delay, LoadTimer) r =
     runPendingTests exec toFixed3 (r\<lparr>timers := remove1 (delay, LoadTimer) (timers r)\<rparr>)"

text \<open>\<^verbatim>\<open>test(name, fn)\<close> for each test of a list, in order.\<close>

definition register_all :: "(jstring \<times> 'a) list \<Rightarrow> 'a runner \<Rightarrow> 'a runner" where
  "register_all tests r = foldl (\<lambda>r (nm, f). enqueueTest nm f r) r tests"

text \<open>
  The outcomes of the actions that the loop calls, in the order of the calls: the same
  walk as \<open>run_tests\<close>, keeping how each action settled.
\<close>

fun outcomes ::
  "('a \<Rightarrow> 'a runner \<Rightarrow> (outcome \<times> 'a runner) option) \<Rightarrow> 'a test_case list \<Rightarrow> 'a runner
   \<Rightarrow> outcome list" where
  "outcomes exec [] r = []"
| "outcomes exec (testCase # rest) r =
     (case exec (fn testCase) r of
        None \<Rightarrow> []
      | Some (oc, r1) \<Rightarrow> oc # outcomes exec rest (record_outcome testCase oc r1))"

fun rejected :: "outcome \<Rightarrow> bool" where
  "rejected (Rejected err) = True"
| "rejected Fulfilled = False"

text \<open>A result that \<^verbatim>\<open>logSummary\<close> can print: it passed, or its error has a message to read.\<close>

fun printable :: "run_result \<Rightarrow> bool" where
  "printable result =
     (result_passed result \<or>
      (case result_error result of
         Some (AssertionError e) \<Rightarrow> True
       | Some (OtherError m) \<Rightarrow> True
       | Some Nullish \<Rightarrow> False
       | None \<Rightarrow> False))"

subsection \<open>Test actions for the examples\<close>

text \<open>
  Three kinds of action: one that returns, one that throws, and one that registers a new
  test under the given name and then awaits something that takes longer than the delay
  of the auto-run.
\<close>

datatype action = Returns | Throws thrown | RegistersAndWaits jstring

text \<open>Calling and awaiting an action when no timer fires in between.\<close>

fun exec_undisturbed :: "action \<Rightarrow> action runner \<Rightarrow> (outcome \<times> action runner) option" where
  "exec_undisturbed Returns r = Some (Fulfilled, r)"
| "exec_undisturbed (Throws err) r = Some (Rejected err, r)"
| "exec_undisturbed (RegistersAndWaits nm) r = Some (Fulfilled, enqueueTest nm Returns r)"

text \<open>
  Calling and awaiting an action in the page: while \<open>RegistersAndWaits\<close> is suspended, the
  pending auto-run timer fires, and the run that it starts has finished when the action
  resumes.
\<close>

fun exec_in_page ::
  "(real \<Rightarrow> jstring) \<Rightarrow> action \<Rightarrow> action runner \<Rightarrow> (outcome \<times> action runner) option" where
  "exec_in_page toFixed3 (RegistersAndWaits nm) r =
     (let r1 = enqueueTest nm Returns r
      in if (50, AutoRunTimer) \<in> set (timers r1) then
           (case fire exec_undisturbed toFixed3 (50, AutoRunTimer) r1 of
              None \<Rightarrow> None
            | Some (v, r2) \<Rightarrow> Some (Fulfilled, r2))
         else Some (Fulfilled, r1))"
| "exec_in_page toFixed3 a r = exec_undisturbed a r"

definition zero_duration :: "real \<Rightarrow> jstring" where
  "zero_duration x = js ''0.000''"

text \<open>
  The two tests of the scenario, \<^verbatim>\<open>a+b\<close> that passes and \<^verbatim>\<open>bad\<close> that fails an
  \<^verbatim>\<open>assert.equal\<close>, registered on a new runner; and a page that registers tests while it
  loads and then signals that its content is loaded.
\<close>

definition scenario_tests :: "(jstring \<times> action) list" where
  "scenario_tests =
     [(js ''a+b'', Returns),
      (js ''bad'', Throws (AssertionError
         \<lparr>message = js ''Expected 2, but got 1'', err_actual = Some (Number 1),
          err_expected = Some (Number 2), differences = None\<rparr>))]"

definition scenario_runner :: "action runner" where
  "scenario_runner = register_all scenario_tests new_TestRunner"

definition loading_page :: "(jstring \<times> action) list \<Rightarrow> action runner" where
  "loading_page tests = on_DOMContentLoaded (register_all tests new_TestRunner)"

section \<open>What the supervisor captures (index.test.js)\<close>

text \<open>
  The text of a console message, as the supervisor's driver reports it: the arguments
  joined by single spaces.  A string argument is its own text; \<open>render\<close> stands for the
  driver's rendering of the other arguments.
\<close>

fun join_args :: "jstring list \<Rightarrow> jstring" where
  "join_args [] = []"
| "join_args [t] = t"
| "join_args (t # ts) = t @ js '' '' @ join_args ts"

fun arg_text :: "(console_arg \<Rightarrow> jstring) \<Rightarrow> console_arg \<Rightarrow> jstring" where
  "arg_text render (Text t) = t"
| "arg_text render a = render a"

definition captured :: "(console_arg \<Rightarrow> jstring) \<Rightarrow> console_call list \<Rightarrow> console_message list" where
  "captured render calls =
     map (\<lambda>c. \<lparr>msg_type = call_type c,
               msg_text = join_args (map (arg_text render) (call_args c))\<rparr>) calls"

section \<open>The sandbox (index.js)\<close>

datatype node = DocumentNode | BodyNode | Element nat

datatype sandbox_template = NoTemplate | TemplateWithSection | TemplateWithoutSection

text \<open>
  The document, as far as \<^verbatim>\<open>withSandbox\<close> touches it: the parent of every node, whether
  the page declares the sandbox template and whether that template holds the section,
  the attributes and styles set on nodes, and the number of the next node to create.
\<close>

record dom =
  parent :: "node \<Rightarrow> node option"
  template :: sandbox_template
  attributes :: "node \<Rightarrow> (string \<times> string) list"
  fresh :: nat

text \<open>A node is attached when its chain of parents ends at the document.\<close>

inductive attached :: "dom \<Rightarrow> node \<Rightarrow> bool" where
  attached_document: "attached d DocumentNode"
| attached_child: "parent d n = Some m \<Longrightarrow> attached d m \<Longrightarrow> attached d n"

code_pred attached .

definition appendChild :: "node \<Rightarrow> node \<Rightarrow> dom \<Rightarrow> dom" where
  "appendChild p child d = d\<lparr>parent := (parent d)(child := Some p)\<rparr>"

definition removeChild :: "node \<Rightarrow> node \<Rightarrow> dom \<Rightarrow> js_error + dom" where
  "removeChild p child d =
     (if parent d child = Some p then Inr (d\<lparr>parent := (parent d)(child := None)\<rparr>)
      else Inl NotFoundError)"

text \<open>
  The first half of \<^verbatim>\<open>withSandbox\<close>: the section of a clone of the template, \<open>None\<close>
  when the template has no such section, or a new hidden \<^verbatim>\<open>div\<close>.
\<close>

definition make_sandbox :: "dom \<Rightarrow> node option \<times> dom" where
  "make_sandbox d =
     (case template d of
        TemplateWithSection \<Rightarrow> (Some (Element (fresh d)), d\<lparr>fresh := fresh d + 1\<rparr>)
      | TemplateWithoutSection \<Rightarrow> (None, d\<lparr>fresh := fresh d + 1\<rparr>)
      | NoTemplate \<Rightarrow>
          (Some (Element (fresh d)),
           d\<lparr>fresh := fresh d + 1,
             attributes := (attributes d)(Element (fresh d) :=
               [(''data-test-sandbox'', ''true''), (''style.position'', ''fixed''),
                (''style.inset'', ''0''), (''style.pointerEvents'', ''none''),
                (''style.visibility'', ''hidden'')])\<rparr>))"

datatype 'e sandbox_failure = Engine js_error | Callback 'e

text \<open>
  \<^verbatim>\<open>withSandbox\<close>.  The callback gets the sandbox and the document and, unless it never
  settles, gives back its return value or the error it raised and the document as it left
  it.  An error of \<^verbatim>\<open>removeChild\<close> in the \<^verbatim>\<open>finally\<close> block replaces the callback's result.
\<close>

definition withSandbox ::
  "(node \<Rightarrow> dom \<Rightarrow> (('e + 'v) \<times> dom) option) \<Rightarrow> dom
   \<Rightarrow> (('e sandbox_failure + 'v) \<times> dom) option" where
  "withSandbox f d =
     (case make_sandbox d of
        (None, d1) \<Rightarrow> Some (Inl (Engine TypeError), d1)
      | (Some sandbox, d1) \<Rightarrow>
          (case f sandbox (appendChild BodyNode sandbox d1) of
             None \<Rightarrow> None
           | Some (res, d2) \<Rightarrow>
               (case removeChild BodyNode sandbox d2 of
                  Inl e \<Rightarrow> Some (Inl (Engine e), d2)
                | Inr d3 \<Rightarrow>
                    (case res of
                       Inl err \<Rightarrow> Some (Inl (Callback err), d3)
                     | Inr v \<Rightarrow> Some (Inr v, d3)))))"

text \<open>
  A page for the examples: \<^verbatim>\<open>html\<close> is element 0, the body is its child, and element 1
  is a \<^verbatim>\<open>div\<close> of the page inside the body.
\<close>

definition page :: dom where
  "page =
     \<lparr>parent = (\<lambda>n. if n = BodyNode then Some (Element 0)
                     else if n = Element 0 then Some DocumentNode
                     else if n = Element 1 then Some BodyNode
                     else None),
      template = NoTemplate, attributes = (\<lambda>n. []), fresh = 2\<rparr>"

text \<open>Callbacks: one that throws, one that moves the sandbox into the page's \<^verbatim>\<open>div\<close>.\<close>

definition throws :: "node \<Rightarrow> dom \<Rightarrow> ((thrown + unit) \<times> dom) option" where
  "throws sandbox d = Some (Inl (OtherError (js ''boom'')), d)"

definition moves :: "node \<Rightarrow> dom \<Rightarrow> ((thrown + unit) \<times> dom) option" where
  "moves sandbox d = Some (Inr (), appendChild (Element 1) sandbox d)"

section \<open>Evaluation\<close>

lemmas string_defs =
  js_def bar_chart_def check_mark_def cross_mark_def stopwatch_def police_light_def newline_def

lemmas extract_defs =
  extractTestResults_def scan_message_def scan_header_def scan_result_def match_here_def
  parseInt_def trim_def isWhiteSpace_def isDigit_def generic_entries_def

lemmas runner_defs =
  runPendingTests_def register_all_def enqueueTest_def scheduleAutoRun_def setTimeout_def
  new_TestRunner_def start_def console_out_def logSummary_def AssertionError_log_def
  zero_duration_def Let_def toString.simps on_DOMContentLoaded_def
  scenario_tests_def scenario_runner_def loading_page_def

section \<open>The reporter's lines, read back by the supervisor\<close>

text \<open>
  C1.  A run of the single passing test \<^verbatim>\<open>a\<close>, its console captured and fed in order to
  the extraction: the result has two records for the one test executed.  The second is
  named \<^verbatim>\<open>Passed: 1\<close>: the summary line of the reporter starts with the pass marker and a
  space, so the extraction takes it for the line of a test.
\<close>

theorem summary_line_extracted_as_test:
  "map_option (\<lambda>(v, r). extractTestResults (captured (\<lambda>a. []) (console r)))
     (runPendingTests exec_undisturbed zero_duration
        (register_all [(js ''a'', Returns)] new_TestRunner))
   = Some [\<lparr>ex_name = js ''a'', ex_status = Passed, ex_error = None\<rparr>,
           \<lparr>ex_name = js ''Passed: 1'', ex_status = Passed, ex_error = None\<rparr>]"
  by (simp add: runner_defs captured_def extract_defs string_defs)

text \<open>
  C2.  The extraction on the header line and the passed-count line alone: the passed-count
  line is itself taken for the line of a passed test, one record named \<^verbatim>\<open>Passed: 1\<close> comes
  back, and no generic record is made.
\<close>

theorem extract_header_and_passed_count_only:
  "extractTestResults
     [\<lparr>msg_type = Info, msg_text = bar_chart @ js '' Tests: 3''\<rparr>,
      \<lparr>msg_type = Log, msg_text = check_mark @ js '' Passed: 1''\<rparr>]
   = [\<lparr>ex_name = js ''Passed: 1'', ex_status = Passed, ex_error = None\<rparr>]"
  by (simp add: extract_defs string_defs)

section \<open>Structural diff\<close>

text \<open>More depth never changes a diff that has finished.\<close>

lemma drain_cong_Some:
  "drain (map f ks) = Some ds \<Longrightarrow> (\<And>k r. k \<in> set ks \<Longrightarrow> f k = Some r \<Longrightarrow> g k = Some r)
   \<Longrightarrow> drain (map g ks) = Some ds"
proof (induction ks arbitrary: ds)
  case Nil then show ?case by simp
next
  case (Cons k ks)
  then show ?case by (cases "f k") auto
qed

lemma diff_more_fuel: "diff n h a b p = Some ds \<Longrightarrow> diff (n + m) h a b p = Some ds"
proof (induction n arbitrary: a b p ds)
  case 0 then show ?case by simp
next
  case (Suc n)
  show ?case
  proof (cases "strict_eq a b \<or> \<not> isObject a \<or> \<not> isObject b")
    case True with Suc.prems show ?thesis by (auto split: if_splits)
  next
    case False
    with Suc.prems have d: "drain (map (\<lambda>key. diff n h (get h a key) (get h b key) (p @ [key]))
                 (new_Set (Object_keys h a @ Object_keys h b))) = Some ds" by simp
    have "drain (map (\<lambda>key. diff (n + m) h (get h a key) (get h b key) (p @ [key]))
                 (new_Set (Object_keys h a @ Object_keys h b))) = Some ds"
      by (rule drain_cong_Some [OF d]) (rule Suc.IH)
    with False show ?thesis by simp
  qed
qed


lemma diff_cyclic_never_finishes: "diff n cyclic_heap (Object 0) (Object 1) p = None"
  by (induction n arbitrary: p) (simp_all add: cyclic_heap_def strict_eq_def)



lemma scenario_diff:
  "diff 3 scenario_heap (Object 0) (Object 2) [] =
     Some [\<lparr>path = [js ''b'', js ''c''], actual = Number 2, expected = Number 3\<rparr>]"
  by (simp add: eval_nat_numeral scenario_heap_def strict_eq_def js_def)

text \<open>
  C3.  \<^verbatim>\<open>assert.deepEqual\<close> throws exactly when the diff of its operands has finished
  with a list of differences that is not empty, and the error then carries that whole
  list; it returns exactly when the diff has finished with the empty list.  For
  \<^verbatim>\<open>{a:1,b:{c:2}}\<close> against \<^verbatim>\<open>{a:1,b:{c:3}}\<close> it throws with the single difference at path
  \<^verbatim>\<open>["b","c"]\<close>, actual 2, expected 3, at any depth from 3 on.
\<close>

theorem deepEqual_raises_iff_differences:
  "(deepEqual n h act expd = Some (Inl err) \<longleftrightarrow>
      (\<exists>ds. diff n h act expd [] = Some ds \<and> ds \<noteq> [] \<and>
            err = \<lparr>message = js ''Values are not deeply equal'', err_actual = Some act,
                   err_expected = Some expd, differences = Some ds\<rparr>)) \<and>
   (deepEqual n h act expd = Some (Inr ()) \<longleftrightarrow> diff n h act expd [] = Some []) \<and>
   deepEqual (3 + m) scenario_heap (Object 0) (Object 2) =
     Some (Inl \<lparr>message = js ''Values are not deeply equal'',
                err_actual = Some (Object 0), err_expected = Some (Object 2),
                differences = Some [\<lparr>path = [js ''b'', js ''c''], actual = Number 2,
                                     expected = Number 3\<rparr>]\<rparr>)"
proof (intro conjI)
  show "deepEqual n h act expd = Some (Inl err) \<longleftrightarrow>
      (\<exists>ds. diff n h act expd [] = Some ds \<and> ds \<noteq> [] \<and>
            err = \<lparr>message = js ''Values are not deeply equal'', err_actual = Some act,
                   err_expected = Some expd, differences = Some ds\<rparr>)"
    by (cases "diff n h act expd []") (auto simp: deepEqual_def)
  show "deepEqual n h act expd = Some (Inr ()) \<longleftrightarrow> diff n h act expd [] = Some []"
    by (cases "diff n h act expd []") (auto simp: deepEqual_def)
  have "diff (3 + m) scenario_heap (Object 0) (Object 2) [] =
     Some [\<lparr>path = [js ''b'', js ''c''], actual = Number 2, expected = Number 3\<rparr>]"
    by (rule diff_more_fuel [OF scenario_diff])
  then show "deepEqual (3 + m) scenario_heap (Object 0) (Object 2) =
     Some (Inl \<lparr>message = js ''Values are not deeply equal'',
                err_actual = Some (Object 0), err_expected = Some (Object 2),
                differences = Some [\<lparr>path = [js ''b'', js ''c''], actual = Number 2,
                                     expected = Number 3\<rparr>]\<rparr>)"
    by (simp add: deepEqual_def)
qed

text \<open>
  C10, as stated, fails at \<^verbatim>\<open>NaN\<close>: \<^verbatim>\<open>NaN === NaN\<close> is false, \<^verbatim>\<open>NaN\<close> is not an object,
  and \<^verbatim>\<open>assert.deepEqual(NaN, NaN)\<close> throws with one difference at the root.
\<close>

theorem deepEqual_NaN_with_itself:
  "deepEqual 1 cyclic_heap NaN NaN =
     Some (Inl \<lparr>message = js ''Values are not deeply equal'', err_actual = Some NaN,
                err_expected = Some NaN,
                differences = Some [\<lparr>path = [], actual = NaN, expected = NaN\<rparr>]\<rparr>)"
  by (simp add: deepEqual_def strict_eq_def)

text \<open>
  C10, amended.  For every value other than \<^verbatim>\<open>NaN\<close>, and any heap, cyclic or not,
  \<^verbatim>\<open>assert.deepEqual(x, x)\<close> returns without throwing, at the first step of the diff: the
  identity test comes before any key is read.
\<close>

theorem deepEqual_same_value:
  "x \<noteq> NaN \<Longrightarrow> deepEqual (Suc n) h x x = Some (Inr ())"
  by (simp add: deepEqual_def strict_eq_def)

text \<open>
  The amended C10 on an object that contains itself, where the diff against its twin
  never finishes.
\<close>

theorem deepEqual_same_value_witness:
  "deepEqual 1 cyclic_heap (Object 0) (Object 0) = Some (Inr ()) \<and>
   get cyclic_heap (Object 0) (js ''self'') = Object 0 \<and>
   diff 50 cyclic_heap (Object 0) (Object 1) [] = None"
proof (intro conjI)
  show "deepEqual 1 cyclic_heap (Object 0) (Object 0) = Some (Inr ())"
    using deepEqual_same_value [of "Object 0" 0 cyclic_heap] by simp
  show "get cyclic_heap (Object 0) (js ''self'') = Object 0"
    by (simp add: cyclic_heap_def)
  show "diff 50 cyclic_heap (Object 0) (Object 1) [] = None"
    by (rule diff_cyclic_never_finishes)
qed




section \<open>The run\<close>

text \<open>The reporter writes to the console and nowhere else in the runner.\<close>

lemma console_out_fields [simp]:
  "passed (console_out t args r) = passed r"
  "failed (console_out t args r) = failed r"
  "total (console_out t args r) = total r"
  "testResults (console_out t args r) = testResults r"
  "testQueue (console_out t args r) = testQueue r"
  by (simp_all add: console_out_def)

lemma AssertionError_log_fields [simp]:
  "passed (AssertionError_log e r) = passed r"
  "failed (AssertionError_log e r) = failed r"
  "total (AssertionError_log e r) = total r"
  "testResults (AssertionError_log e r) = testResults r"
  "testQueue (AssertionError_log e r) = testQueue r"
  by (simp_all add: AssertionError_log_def Let_def split: option.splits)

lemma log_results_fields:
  "passed (snd (log_results rs r)) = passed r \<and>
   failed (snd (log_results rs r)) = failed r \<and>
   total (snd (log_results rs r)) = total r \<and>
   testResults (snd (log_results rs r)) = testResults r \<and>
   testQueue (snd (log_results rs r)) = testQueue r"
  by (induction rs arbitrary: r) (simp_all add: Let_def split: option.splits thrown.splits)

lemma logSummary_fields:
  "passed (snd (logSummary f r)) = passed r \<and>
   failed (snd (logSummary f r)) = failed r \<and>
   total (snd (logSummary f r)) = total r \<and>
   testResults (snd (logSummary f r)) = testResults r \<and>
   testQueue (snd (logSummary f r)) = testQueue r"
  using log_results_fields [of "testResults r" "console_out Info [Text (newline @ bar_chart @ js '' Tests: '' @ toString (total r))] r"]
  by (cases "log_results (testResults r) (console_out Info [Text (newline @ bar_chart @ js '' Tests: '' @ toString (total r))] r)")
     (auto simp: logSummary_def Let_def split: option.splits)

lemma log_results_fst:
  "fst (log_results rs r) = (if list_all printable rs then None else Some TypeError)"
  by (induction rs arbitrary: r) (auto simp: Let_def split: option.splits thrown.splits)

lemma logSummary_fst:
  "fst (logSummary f r) =
     (if list_all printable (testResults r) then Inr (failed r = 0) else Inl TypeError)"
proof -
  let ?r1 = "console_out Info [Text (newline @ bar_chart @ js '' Tests: '' @ toString (total r))] r"
  obtain e r2 where lr: "log_results (testResults r) ?r1 = (e, r2)"
    by (cases "log_results (testResults r) ?r1")
  from log_results_fst [of "testResults r" ?r1] lr
  have e: "e = (if list_all printable (testResults r) then None else Some TypeError)" by simp
  from log_results_fields [of "testResults r" ?r1] lr have f: "failed r2 = failed r" by simp
  show ?thesis using lr e f by (simp add: logSummary_def Let_def)
qed

lemma record_outcome_fields [simp]:
  "testQueue (record_outcome t oc r) = testQueue r"
  "testResults (record_outcome t oc r) =
     testResults r @ [\<lparr>result_name = name t, result_passed = \<not> rejected oc,
                       result_error = (case oc of Fulfilled \<Rightarrow> None | Rejected e \<Rightarrow> Some e)\<rparr>]"
  "passed (record_outcome t oc r) = passed r + (if rejected oc then 0 else 1)"
  "failed (record_outcome t oc r) = failed r + (if rejected oc then 1 else 0)"
  by (cases oc; simp)+

lemma run_tests_settles:
  "(\<And>t s. t \<in> set ts \<Longrightarrow> exec (fn t) s \<noteq> None) \<Longrightarrow> \<exists>r'. run_tests exec ts r = Some r'"
proof (induction ts arbitrary: r)
  case Nil then show ?case by simp
next
  case (Cons t ts)
  from Cons.prems [of t r] obtain oc r1 where e: "exec (fn t) r = Some (oc, r1)" by auto
  from Cons.IH [of "record_outcome t oc r1"] Cons.prems e show ?case by simp
qed

lemma outcomes_length:
  "(\<And>t s. t \<in> set ts \<Longrightarrow> exec (fn t) s \<noteq> None) \<Longrightarrow> length (outcomes exec ts r) = length ts"
proof (induction ts arbitrary: r)
  case Nil then show ?case by simp
next
  case (Cons t ts)
  from Cons.prems [of t r] obtain oc r1 where e: "exec (fn t) r = Some (oc, r1)" by auto
  from Cons.IH [of "record_outcome t oc r1"] Cons.prems e show ?case by simp
qed


lemma run_tests_counters:
  assumes "run_tests exec ts r = Some r'"
    and "\<And>t s oc s'. t \<in> set ts \<Longrightarrow> exec (fn t) s = Some (oc, s') \<Longrightarrow>
           passed s' = passed s \<and> failed s' = failed s"
  shows "passed r' = passed r + length (filter (\<lambda>oc. \<not> rejected oc) (outcomes exec ts r)) \<and>
         failed r' = failed r + length (filter rejected (outcomes exec ts r))"
  using assms
proof (induction ts arbitrary: r)
  case Nil then show ?case by simp
next
  case (Cons t ts)
  from Cons.prems(1) obtain oc r1 where e: "exec (fn t) r = Some (oc, r1)"
    and rest: "run_tests exec ts (record_outcome t oc r1) = Some r'"
    by (auto split: option.splits)
  from Cons.prems(2) [of t r oc r1] e have same: "passed r1 = passed r \<and> failed r1 = failed r"
    by simp
  let ?r2 = "record_outcome t oc r1"
  have "passed r' = passed ?r2 + length (filter (\<lambda>oc. \<not> rejected oc) (outcomes exec ts ?r2)) \<and>
        failed r' = failed ?r2 + length (filter rejected (outcomes exec ts ?r2))"
    by (rule Cons.IH [OF rest]) (rule Cons.prems(2), simp_all)
  with same e show ?case by simp
qed

lemma run_tests_queue:
  assumes "run_tests exec ts r = Some r'"
    and "\<And>t s oc s'. t \<in> set ts \<Longrightarrow> exec (fn t) s = Some (oc, s') \<Longrightarrow> testQueue s' = testQueue s"
  shows "testQueue r' = testQueue r"
  using assms
proof (induction ts arbitrary: r)
  case Nil then show ?case by simp
next
  case (Cons t ts)
  from Cons.prems(1) obtain oc r1 where e: "exec (fn t) r = Some (oc, r1)"
    and rest: "run_tests exec ts (record_outcome t oc r1) = Some r'"
    by (auto split: option.splits)
  from Cons.prems(2) [of t r oc r1] e have same: "testQueue r1 = testQueue r" by simp
  have "testQueue r' = testQueue (record_outcome t oc r1)"
    by (rule Cons.IH [OF rest]) (rule Cons.prems(2), simp_all)
  with same show ?case by simp
qed

text \<open>The state in which the loop of a run starts.\<close>

lemma runPendingTests_unfold:
  "testQueue r \<noteq> [] \<Longrightarrow>
   run_tests exec (testQueue r) ((start r)\<lparr>total := length (testQueue r), testQueue := []\<rparr>) = Some r4 \<Longrightarrow>
   runPendingTests exec f r =
     Some (case fst (logSummary f r4) of Inl e \<Rightarrow> Inl e | Inr b \<Rightarrow> Inr (ReturnsBool b),
           snd (logSummary f r4))"
  by (cases "logSummary f r4")
     (auto simp: runPendingTests_def Let_def start_def console_out_def split: sum.splits)

lemma start_fields [simp]:
  "passed (start r) = 0" "failed (start r) = 0" "testResults (start r) = []"
  "testQueue (start r) = testQueue r"
  by (simp_all add: start_def)

lemma testQueue_register_all:
  "testQueue (register_all tests r) = testQueue r @ map (\<lambda>(nm, f). \<lparr>name = nm, fn = f\<rparr>) tests"
proof (induction tests arbitrary: r)
  case Nil then show ?case by (simp add: register_all_def)
next
  case (Cons t tests)
  obtain nm f where t: "t = (nm, f)" by (cases t)
  have q: "testQueue (enqueueTest nm f r) = testQueue r @ [\<lparr>name = nm, fn = f\<rparr>]"
    by (simp add: enqueueTest_def scheduleAutoRun_def setTimeout_def Let_def)
  have "register_all (t # tests) r = register_all tests (enqueueTest nm f r)"
    by (simp add: register_all_def t)
  with Cons.IH [of "enqueueTest nm f r"] q t show ?case by simp
qed

text \<open>The scenario's queue, and its actions when nothing disturbs them.\<close>

lemma scenario_queue:
  "testQueue scenario_runner =
     [\<lparr>name = js ''a+b'', fn = Returns\<rparr>,
      \<lparr>name = js ''bad'', fn = Throws (AssertionError
         \<lparr>message = js ''Expected 2, but got 1'', err_actual = Some (Number 1),
          err_expected = Some (Number 2), differences = None\<rparr>)\<rparr>]"
  by (simp add: scenario_runner_def scenario_tests_def testQueue_register_all new_TestRunner_def)

lemma scenario_settles:
  "\<forall>t \<in> set (testQueue scenario_runner). \<forall>s. exec_undisturbed (fn t) s \<noteq> None"
  unfolding scenario_queue by simp

lemma scenario_undisturbed:
  "\<forall>t \<in> set (testQueue scenario_runner). \<forall>s oc s'. exec_undisturbed (fn t) s = Some (oc, s') \<longrightarrow>
     s' = s"
  unfolding scenario_queue by auto

lemma scenario_outcomes:
  "outcomes exec_undisturbed (testQueue scenario_runner)
     ((start scenario_runner)\<lparr>total := length (testQueue scenario_runner), testQueue := []\<rparr>)
   = [Fulfilled, Rejected (AssertionError
         \<lparr>message = js ''Expected 2, but got 1'', err_actual = Some (Number 1),
          err_expected = Some (Number 2), differences = None\<rparr>)]"
  unfolding scenario_queue by simp

lemma scenario_final:
  "map_option (\<lambda>(v, r). (failed r, list_all printable (testResults r)))
     (runPendingTests exec_undisturbed zero_duration scenario_runner) = Some (1, True)"
  by (simp add: runner_defs string_defs)




text \<open>
  C6, as stated, fails when a second run starts while an action of the first is
  suspended.  The batch is \<^verbatim>\<open>F\<close>, which throws, and \<^verbatim>\<open>A\<close>, which registers \<^verbatim>\<open>B\<close> and
  waits.  The run that the timer starts in between resets both counters and counts \<^verbatim>\<open>B\<close>;
  then \<^verbatim>\<open>A\<close> is counted.  The first run ends with \<^verbatim>\<open>passed\<close> 2 and \<^verbatim>\<open>failed\<close> 0 and
  returns \<^verbatim>\<open>true\<close>, though one of its two actions raised and one returned.
\<close>

theorem reentrant_run_breaks_counters:
  "map name (testQueue (loading_page [(js ''F'', Throws (OtherError (js ''boom''))),
                                      (js ''A'', RegistersAndWaits (js ''B''))]))
     = [js ''F'', js ''A''] \<and>
   map_option (\<lambda>(v, r). (v, passed r, failed r))
     (fire (exec_in_page zero_duration) zero_duration (50, AutoRunTimer)
        (loading_page [(js ''F'', Throws (OtherError (js ''boom''))),
                       (js ''A'', RegistersAndWaits (js ''B''))]))
   = Some (Inr (ReturnsBool True), 2, 0)"
  by (simp add: runner_defs string_defs)

text \<open>
  C6, amended.  A run on a queue that is not empty, whose actions all settle and leave the
  two counters as they found them: every action of the batch is called, whether earlier
  ones raised or not, and when the run returns \<^verbatim>\<open>failed\<close> is the number of actions that
  raised and \<^verbatim>\<open>passed\<close> the number that did not.
\<close>

theorem run_isolates_failures_and_counts:
  assumes "testQueue r \<noteq> []"
    and "\<forall>t \<in> set (testQueue r). \<forall>s. exec (fn t) s \<noteq> None"
    and "\<forall>t \<in> set (testQueue r). \<forall>s oc s'. exec (fn t) s = Some (oc, s') \<longrightarrow>
           passed s' = passed s \<and> failed s' = failed s"
    and "ocs = outcomes exec (testQueue r)
                 ((start r)\<lparr>total := length (testQueue r), testQueue := []\<rparr>)"
  shows "\<exists>v r'. runPendingTests exec toFixed3 r = Some (v, r') \<and>
           length ocs = length (testQueue r) \<and>
           failed r' = length (filter rejected ocs) \<and>
           passed r' = length (filter (\<lambda>oc. \<not> rejected oc) ocs)"
proof -
  let ?r3 = "(start r)\<lparr>total := length (testQueue r), testQueue := []\<rparr>"
  from run_tests_settles [of "testQueue r" exec ?r3] assms(2)
  obtain r4 where r4: "run_tests exec (testQueue r) ?r3 = Some r4" by blast
  from run_tests_counters [OF r4] assms(3,4)
  have counts: "passed r4 = length (filter (\<lambda>oc. \<not> rejected oc) ocs) \<and>
                failed r4 = length (filter rejected ocs)" by simp
  from outcomes_length [of "testQueue r" exec ?r3] assms(2,4)
  have len: "length ocs = length (testQueue r)" by simp
  from runPendingTests_unfold [OF assms(1) r4]
  have run: "runPendingTests exec toFixed3 r =
     Some (case fst (logSummary toFixed3 r4) of Inl e \<Rightarrow> Inl e | Inr b \<Rightarrow> Inr (ReturnsBool b),
           snd (logSummary toFixed3 r4))" .
  from logSummary_fields [of toFixed3 r4]
  have same: "passed (snd (logSummary toFixed3 r4)) = passed r4"
             "failed (snd (logSummary toFixed3 r4)) = failed r4" by simp_all
  from run same counts len show ?thesis by simp
qed

text \<open>The two tests of the scenario, each run without disturbance: one passes, one fails.\<close>

theorem run_isolates_failures_and_counts_witness:
  "\<exists>v r'. runPendingTests exec_undisturbed zero_duration scenario_runner = Some (v, r') \<and>
      failed r' = 1 \<and> passed r' = 1"
proof -
  have ne: "testQueue scenario_runner \<noteq> []" unfolding scenario_queue by simp
  have same: "\<forall>t \<in> set (testQueue scenario_runner). \<forall>s oc s'.
      exec_undisturbed (fn t) s = Some (oc, s') \<longrightarrow> passed s' = passed s \<and> failed s' = failed s"
    using scenario_undisturbed by blast
  from run_isolates_failures_and_counts
         [OF ne scenario_settles same scenario_outcomes [symmetric], of zero_duration]
  show ?thesis by auto
qed

text \<open>
  C7, as stated, fails on an empty queue: the run returns \<^verbatim>\<open>undefined\<close>, not a boolean.
  It also fails when a test throws \<^verbatim>\<open>null\<close> or \<^verbatim>\<open>undefined\<close>: printing that result
  throws a \<^verbatim>\<open>TypeError\<close>, and the run rejects with it.
\<close>

theorem run_on_empty_queue_returns_undefined:
  "runPendingTests exec_undisturbed zero_duration new_TestRunner =
     Some (Inr ReturnsUndefined, new_TestRunner) \<and>
   map_option fst (runPendingTests exec_undisturbed zero_duration
     (register_all [(js ''t'', Throws Nullish)] new_TestRunner)) = Some (Inl TypeError)"
  by (simp add: runner_defs string_defs)

text \<open>
  C7, amended.  On an empty queue the run returns \<^verbatim>\<open>undefined\<close> and leaves the whole
  state, console included, as it was.  On a queue that is not empty and whose actions all
  settle, the run settles, and when every result can be printed it returns the boolean
  that says whether \<^verbatim>\<open>failed\<close> is 0.
\<close>

theorem run_returns_whether_none_failed:
  "(testQueue r = [] \<longrightarrow> runPendingTests exec toFixed3 r = Some (Inr ReturnsUndefined, r)) \<and>
   (testQueue r \<noteq> [] \<and> (\<forall>t \<in> set (testQueue r). \<forall>s. exec (fn t) s \<noteq> None) \<longrightarrow>
      (\<exists>v r'. runPendingTests exec toFixed3 r = Some (v, r') \<and>
         (list_all printable (testResults r') \<longrightarrow> v = Inr (ReturnsBool (failed r' = 0)))))"
proof (intro conjI impI)
  assume "testQueue r = []"
  then show "runPendingTests exec toFixed3 r = Some (Inr ReturnsUndefined, r)"
    by (simp add: runPendingTests_def)
next
  assume a: "testQueue r \<noteq> [] \<and> (\<forall>t \<in> set (testQueue r). \<forall>s. exec (fn t) s \<noteq> None)"
  let ?r3 = "(start r)\<lparr>total := length (testQueue r), testQueue := []\<rparr>"
  from run_tests_settles [of "testQueue r" exec ?r3] a
  obtain r4 where r4: "run_tests exec (testQueue r) ?r3 = Some r4" by blast
  from a have ne: "testQueue r \<noteq> []" by simp
  from runPendingTests_unfold [OF ne r4]
  have run: "runPendingTests exec toFixed3 r =
     Some (case fst (logSummary toFixed3 r4) of Inl e \<Rightarrow> Inl e | Inr b \<Rightarrow> Inr (ReturnsBool b),
           snd (logSummary toFixed3 r4))" .
  from logSummary_fields [of toFixed3 r4]
  have same: "testResults (snd (logSummary toFixed3 r4)) = testResults r4"
             "failed (snd (logSummary toFixed3 r4)) = failed r4" by simp_all
  from run same logSummary_fst [of toFixed3 r4]
  show "\<exists>v r'. runPendingTests exec toFixed3 r = Some (v, r') \<and>
         (list_all printable (testResults r') \<longrightarrow> v = Inr (ReturnsBool (failed r' = 0)))"
    by simp
qed

text \<open>
  The amended C7 on a new runner, whose queue is empty, and on the two tests of the
  scenario, where one test fails and the run returns \<^verbatim>\<open>false\<close>.
\<close>

theorem run_returns_whether_none_failed_witness:
  "runPendingTests exec_undisturbed zero_duration new_TestRunner
     = Some (Inr ReturnsUndefined, new_TestRunner) \<and>
   (\<exists>r'. runPendingTests exec_undisturbed zero_duration scenario_runner
            = Some (Inr (ReturnsBool False), r') \<and> failed r' = 1)"
proof
  have "testQueue (new_TestRunner :: action runner) = []" by (simp add: new_TestRunner_def)
  with run_returns_whether_none_failed [of new_TestRunner exec_undisturbed zero_duration]
  show "runPendingTests exec_undisturbed zero_duration new_TestRunner
     = Some (Inr ReturnsUndefined, new_TestRunner)"
    by blast
  have ne: "testQueue scenario_runner \<noteq> []" unfolding scenario_queue by simp
  from run_returns_whether_none_failed [of scenario_runner exec_undisturbed zero_duration]
    ne scenario_settles
  obtain v r' where run: "runPendingTests exec_undisturbed zero_duration scenario_runner = Some (v, r')"
    and v: "list_all printable (testResults r') \<longrightarrow> v = Inr (ReturnsBool (failed r' = 0))"
    by blast
  from scenario_final run have "failed r' = 1" "list_all printable (testResults r')" by simp_all
  with run v show "\<exists>r'. runPendingTests exec_undisturbed zero_duration scenario_runner
            = Some (Inr (ReturnsBool False), r') \<and> failed r' = 1"
    by simp
qed

text \<open>
  C9.  When the actions of the queue all settle and register nothing, the run leaves the
  queue empty, and a second run in the state it left returns \<^verbatim>\<open>undefined\<close> with that
  state unchanged: no field of the runner changes and nothing is written to the console.
\<close>

theorem second_run_is_a_no_op:
  assumes "\<forall>t \<in> set (testQueue r). \<forall>s. exec (fn t) s \<noteq> None"
    and "\<forall>t \<in> set (testQueue r). \<forall>s oc s'. exec (fn t) s = Some (oc, s') \<longrightarrow>
           testQueue s' = testQueue s"
  shows "\<exists>v r'. runPendingTests exec toFixed3 r = Some (v, r') \<and> testQueue r' = [] \<and>
           runPendingTests exec toFixed3 r' = Some (Inr ReturnsUndefined, r')"
proof (cases "testQueue r = []")
  case True
  then show ?thesis by (simp add: runPendingTests_def)
next
  case False
  let ?r3 = "(start r)\<lparr>total := length (testQueue r), testQueue := []\<rparr>"
  from run_tests_settles [of "testQueue r" exec ?r3] assms(1)
  obtain r4 where r4: "run_tests exec (testQueue r) ?r3 = Some r4" by blast
  from run_tests_queue [OF r4] assms(2) have q: "testQueue r4 = []" by simp
  from runPendingTests_unfold [OF False r4]
  have run: "runPendingTests exec toFixed3 r =
     Some (case fst (logSummary toFixed3 r4) of Inl e \<Rightarrow> Inl e | Inr b \<Rightarrow> Inr (ReturnsBool b),
           snd (logSummary toFixed3 r4))" .
  from logSummary_fields [of toFixed3 r4] q
  have "testQueue (snd (logSummary toFixed3 r4)) = []" by simp
  with run show ?thesis by (simp add: runPendingTests_def)
qed

text \<open>The two tests of the scenario: after their run a second run does nothing.\<close>

theorem second_run_is_a_no_op_witness:
  "\<exists>v r'. runPendingTests exec_undisturbed zero_duration scenario_runner = Some (v, r') \<and>
      testQueue r' = [] \<and>
      runPendingTests exec_undisturbed zero_duration r' = Some (Inr ReturnsUndefined, r')"
proof -
  have same: "\<forall>t \<in> set (testQueue scenario_runner). \<forall>s oc s'.
      exec_undisturbed (fn t) s = Some (oc, s') \<longrightarrow> testQueue s' = testQueue s"
    using scenario_undisturbed by blast
  from second_run_is_a_no_op [OF scenario_settles same, of zero_duration]
  show ?thesis .
qed

section \<open>The sandbox\<close>

lemma detached_no_parent: "parent d n = None \<Longrightarrow> n \<noteq> DocumentNode \<Longrightarrow> \<not> attached d n"
  by (auto elim: attached.cases)

lemma make_sandbox_element: "make_sandbox d = (Some sandbox, d1) \<Longrightarrow> sandbox = Element (fresh d)"
  by (auto simp: make_sandbox_def split: sandbox_template.splits)

text \<open>
  C8, as stated, fails for a callback that moves the sandbox to another place in the
  document.  The callback appends the sandbox to a \<^verbatim>\<open>div\<close> of the page and returns;
  \<^verbatim>\<open>document.body.removeChild\<close> then throws \<^verbatim>\<open>NotFoundError\<close>, since the sandbox is no
  child of the body, \<^verbatim>\<open>withSandbox\<close> raises that error, and the sandbox is still attached.
\<close>

theorem moved_sandbox_stays_attached:
  "fst (make_sandbox page) = Some (Element 2) \<and>
   map_option fst (withSandbox moves page) = Some (Inl (Engine NotFoundError)) \<and>
   attached (snd (the (withSandbox moves page))) (Element 2)"
proof (intro conjI)
  show "fst (make_sandbox page) = Some (Element 2)" by (simp add: make_sandbox_def page_def)
  show "map_option fst (withSandbox moves page) = Some (Inl (Engine NotFoundError))"
    by (simp add: withSandbox_def make_sandbox_def page_def moves_def appendChild_def removeChild_def)
  let ?d = "snd (the (withSandbox moves page))"
  have p: "parent ?d (Element 2) = Some (Element 1)" "parent ?d (Element 1) = Some BodyNode"
    "parent ?d BodyNode = Some (Element 0)" "parent ?d (Element 0) = Some DocumentNode"
    by (simp_all add: withSandbox_def make_sandbox_def page_def moves_def appendChild_def removeChild_def)
  show "attached ?d (Element 2)"
    by (intro attached_child [OF p(1)] attached_child [OF p(2)] attached_child [OF p(3)]
          attached_child [OF p(4)] attached_document)
qed

text \<open>
  C8, amended.  For every callback that settles and leaves the sandbox a child of the
  body: \<^verbatim>\<open>withSandbox\<close> settles, with the callback's return value or with the error it
  raised, and in the document it leaves the sandbox is not attached.
\<close>

theorem sandbox_left_in_body_is_detached:
  assumes "make_sandbox d = (Some sandbox, d1)"
    and "f sandbox (appendChild BodyNode sandbox d1) = Some (res, d2)"
    and "parent d2 sandbox = Some BodyNode"
  shows "\<exists>v d'. withSandbox f d = Some (v, d') \<and> \<not> attached d' sandbox \<and>
           v = (case res of Inl err \<Rightarrow> Inl (Callback err) | Inr x \<Rightarrow> Inr x)"
proof -
  let ?d3 = "d2\<lparr>parent := (parent d2)(sandbox := None)\<rparr>"
  from assms(3) have rm: "removeChild BodyNode sandbox d2 = Inr ?d3"
    by (simp add: removeChild_def)
  from make_sandbox_element [OF assms(1)] have "sandbox \<noteq> DocumentNode" by simp
  then have det: "\<not> attached ?d3 sandbox" by (intro detached_no_parent) simp_all
  from assms(1,2) rm have "withSandbox f d =
      Some (case res of Inl err \<Rightarrow> Inl (Callback err) | Inr x \<Rightarrow> Inr x, ?d3)"
    by (simp add: withSandbox_def split: sum.splits)
  with det show ?thesis by blast
qed

text \<open>The amended C8 on a callback that throws: the error comes through, the sandbox is gone.\<close>

theorem sandbox_left_in_body_is_detached_witness:
  "\<exists>v d'. withSandbox throws page = Some (v, d') \<and> \<not> attached d' (Element 2) \<and>
      v = Inl (Callback (OtherError (js ''boom'')))"
proof -
  have m: "make_sandbox page = (Some (Element 2), page\<lparr>fresh := 3,
      attributes := (attributes page)(Element 2 :=
               [(''data-test-sandbox'', ''true''), (''style.position'', ''fixed''),
                (''style.inset'', ''0''), (''style.pointerEvents'', ''none''),
                (''style.visibility'', ''hidden'')])\<rparr>)"
    by (simp add: make_sandbox_def page_def)
  from sandbox_left_in_body_is_detached [OF m, of throws "Inl (OtherError (js ''boom''))"]
  show ?thesis by (simp add: throws_def appendChild_def)
qed

end
